theory Spec2Isabelle
  imports Complex_Main
begin

section \<open>Data model (src/types/index.ts)\<close>

text \<open>
  A JavaScript \<open>number\<close>: \<open>NaN\<close>, which a form input registered with \<open>valueAsNumber\<close>
  hands over when it is emptied, or a finite value, held as a rational. Adding two finite
  values is exact here (the rounding of doubles is not modelled) and a sum with \<open>NaN\<close> is
  \<open>NaN\<close>; the infinities are left out. What is proved of the sums below therefore compares
  runs that perform the same additions, and says nothing of the digits of a total.
\<close>

datatype number = NaN | Num rat

instantiation number :: comm_monoid_add
begin

definition zero_number :: number where
  "zero_number = Num 0"

definition plus_number :: "number \<Rightarrow> number \<Rightarrow> number" where
  "plus_number x y =
     (case x of NaN \<Rightarrow> NaN | Num a \<Rightarrow> (case y of NaN \<Rightarrow> NaN | Num b \<Rightarrow> Num (a + b)))"

instance
proof
  fix a b c :: number
  show "a + b + c = a + (b + c)"
    by (cases a; cases b; cases c) (simp_all add: plus_number_def)
  show "a + b = b + a"
    by (cases a; cases b) (simp_all add: plus_number_def)
  show "0 + a = a"
    by (cases a) (simp_all add: plus_number_def zero_number_def)
qed

end

text \<open>The union type \<open>'interlock' | 'boards/tiir'\<close>.\<close>

datatype mix_type = interlock | boards_tiir

record Product =
  type :: string
  quantity :: number

text \<open>The nested object \<open>MixData.measurements\<close>; an optional property is an \<open>option\<close>.\<close>

record measurements =
  cement :: number
  aggregate :: number
  sand :: number
  water :: number
  plastizer :: number
  birta :: "number option"
  colorType :: string
  colorQuantity :: number
  products :: "Product list option"

record MixData =
  id_str :: string
  timestamp :: string
  mixType :: mix_type
  measurements :: measurements
  createdBy :: string
  lastModified :: string

record FormData =
  mixType :: mix_type
  cement :: number
  aggregate :: number
  sand :: number
  water :: number
  plastizer :: number
  birta :: "number option"
  colorType :: string
  colorQuantity :: number
  products :: "Product list option"

text \<open>
  \<open>MixDataFormInput = z.infer<typeof mixDataSchema>\<close> (src/lib/validation.ts): the candidate
  record handed to the validator. \<open>birta\<close> is the only optional property, \<open>products\<close> is an
  array, and every numeric property is a \<open>number\<close>, so it may be \<open>NaN\<close>.
\<close>

record MixDataFormInput =
  mixType :: mix_type
  cement :: number
  aggregate :: number
  sand :: number
  water :: number
  plastizer :: number
  birta :: "number option"
  colorType :: string
  colorQuantity :: number
  products :: "Product list"

section \<open>Validation schema (src/lib/validation.ts)\<close>

definition colorOptions :: "string list" where
  "colorOptions = [''Red'', ''Pure Red'', ''White'', ''Black'', ''Yellow'']"

definition interlockTypes :: "string list" where
  "interlockTypes = [''Block Interlock'', ''Buuor Interlock'', ''Daimond Interlock'',
     ''Tiiba Talyaani Interlock'', ''York Shir Interlock'', ''Garden'']"

definition boardsTiirTypes :: "string list" where
  "boardsTiirTypes = [''Tiir'', ''Boards'']"

text \<open>
  An issue of the schema library: the kind of check that failed, the path of the offending
  value and the message given in the schema (\<open>None\<close> where the schema gives none and the
  library supplies its default text).
\<close>

datatype seg = Key string | Idx nat

datatype issue_code = invalid_type | too_small | too_big | custom

record issue =
  code :: issue_code
  path :: "seg list"
  message :: "string option"

text \<open>
  What parsing a value gives: the issues raised, and whether the parse was aborted. A value
  that is not of the type of its schema aborts the parse; a failed range or length check
  raises an issue and leaves the parse going.
\<close>

record outcome =
  issues :: "issue list"
  aborted :: bool

text \<open>
  An object or an array parses all its members, in order, and collects their issues; it is
  aborted when one of them is.
\<close>

definition mergeAll :: "outcome list \<Rightarrow> outcome" where
  "mergeAll rs = \<lparr>issues = concat (map issues rs), aborted = list_ex aborted rs\<rparr>"

text \<open>
  \<open>z.number().min(lo, m1).max(hi, m2)\<close> on the value found at path \<open>p\<close>. \<open>NaN\<close> is not
  accepted as a number: the type check fails and the parse is aborted. On a number both
  range checks run. The bounds are the decimals written in the source; the double that
  \<open>9999.99\<close> denotes lies just below that decimal, so a double exceeds the one exactly when it
  exceeds the other.
\<close>

definition number_min_max ::
  "rat \<Rightarrow> string option \<Rightarrow> rat \<Rightarrow> string option \<Rightarrow> seg list \<Rightarrow> number \<Rightarrow> outcome" where
  "number_min_max lo m1 hi m2 p v =
     (case v of
        NaN \<Rightarrow> \<lparr>issues = [\<lparr>code = invalid_type, path = p, message = None\<rparr>], aborted = True\<rparr>
      | Num x \<Rightarrow>
          \<lparr>issues =
             (if x < lo then [\<lparr>code = too_small, path = p, message = m1\<rparr>] else []) @
             (if hi < x then [\<lparr>code = too_big, path = p, message = m2\<rparr>] else []),
           aborted = False\<rparr>)"

text \<open>\<open>.optional()\<close>: an absent value passes, a present one is parsed.\<close>

definition optional :: "('a \<Rightarrow> outcome) \<Rightarrow> 'a option \<Rightarrow> outcome" where
  "optional schema v =
     (case v of None \<Rightarrow> \<lparr>issues = [], aborted = False\<rparr> | Some x \<Rightarrow> schema x)"

text \<open>\<open>z.string().min(1, m)\<close> on a string found at path \<open>p\<close>.\<close>

definition string_min1 :: "string \<Rightarrow> seg list \<Rightarrow> string \<Rightarrow> outcome" where
  "string_min1 m p s =
     \<lparr>issues = (if length s < 1 then [\<lparr>code = too_small, path = p, message = Some m\<rparr>] else []),
      aborted = False\<rparr>"

text \<open>\<open>productSchema\<close> on the element at index \<open>i\<close> of \<open>products\<close>.\<close>

definition productSchema :: "nat \<Rightarrow> Product \<Rightarrow> outcome" where
  "productSchema i p =
     mergeAll
       [string_min1 ''Product type is required'' [Key ''products'', Idx i, Key ''type''] (type p),
        number_min_max 0 (Some ''Quantity must be positive'') 9999 (Some ''Quantity too large'')
          [Key ''products'', Idx i, Key ''quantity''] (quantity p)]"

text \<open>\<open>z.array(productSchema).min(1, ...)\<close>: the length check, then every element in turn.\<close>

definition productsSchema :: "Product list \<Rightarrow> outcome" where
  "productsSchema ps =
     mergeAll
       (\<lparr>issues =
           (if length ps < 1
            then [\<lparr>code = too_small, path = [Key ''products''],
                   message = Some ''At least one product is required''\<rparr>]
            else []),
         aborted = False\<rparr>
        # map (\<lambda>(i, p). productSchema i p) (enumerate 0 ps))"

text \<open>
  The \<open>z.object({...})\<close> under the refinements, property by property in the order of the
  schema. \<open>mixType\<close> (an enum) and \<open>colorType\<close> (\<open>z.string()\<close> with no check) raise no issue
  on a value of their type.
\<close>

definition objectSchema :: "MixDataFormInput \<Rightarrow> outcome" where
  "objectSchema data =
     mergeAll
       [number_min_max 0 None 9999.99 None [Key ''cement''] (cement data),
        number_min_max 0 None 9999.99 None [Key ''aggregate''] (aggregate data),
        number_min_max 0 None 9999.99 None [Key ''sand''] (sand data),
        number_min_max 0 None 9999.99 None [Key ''water''] (water data),
        number_min_max 0 None 9999.99 None [Key ''plastizer''] (plastizer data),
        optional (number_min_max 0 None 9999 None [Key ''birta'']) (birta data),
        number_min_max 0 None 9999.99 None [Key ''colorQuantity''] (colorQuantity data),
        productsSchema (products data)]"

text \<open>The five callbacks given to \<open>.refine\<close>, in the order of the source.\<close>

definition refine_birta :: "MixDataFormInput \<Rightarrow> bool" where
  "refine_birta data =
     (if mixType data = boards_tiir \<and> birta data = None then False else True)"

definition refine_colorType :: "MixDataFormInput \<Rightarrow> bool" where
  "refine_colorType data = (colorType data = '''' \<or> colorType data \<in> set colorOptions)"

definition refine_productTypes :: "MixDataFormInput \<Rightarrow> bool" where
  "refine_productTypes data =
     (if length (products data) > 0 then
        (if mixType data = interlock
         then list_all (\<lambda>product. type product \<in> set interlockTypes) (products data)
         else if mixType data = boards_tiir
         then list_all (\<lambda>product. type product \<in> set boardsTiirTypes) (products data)
         else True)
      else True)"

text \<open>
  \<open>filter(Boolean)\<close> drops the empty strings; the size of \<open>new Set(types)\<close> is the number of
  distinct strings among \<open>types\<close>.
\<close>

definition uniqueTypes :: "Product list \<Rightarrow> bool" where
  "uniqueTypes ps =
     (let types = filter (\<lambda>t. t \<noteq> '''') (map type ps)
      in length types = length (remdups types))"

definition refine_interlockDuplicates :: "MixDataFormInput \<Rightarrow> bool" where
  "refine_interlockDuplicates data =
     (if mixType data = interlock \<and> length (products data) > 0
      then uniqueTypes (products data) else True)"

definition refine_boardsTiirDuplicates :: "MixDataFormInput \<Rightarrow> bool" where
  "refine_boardsTiirDuplicates data =
     (if mixType data = boards_tiir \<and> length (products data) > 0
      then uniqueTypes (products data) else True)"

text \<open>
  \<open>inner.refine(callback, {message, path})\<close>, with \<open>ok\<close> what the callback returns on the
  data: when the parse of \<open>inner\<close> was aborted the callback is not run and nothing is added;
  otherwise a callback that returns false adds a custom issue at the given path, without
  aborting.
\<close>

definition refinement :: "bool \<Rightarrow> string \<Rightarrow> seg list \<Rightarrow> outcome \<Rightarrow> outcome" where
  "refinement ok msg p inner =
     (if aborted inner then inner
      else inner\<lparr>issues :=
             issues inner @ (if ok then [] else [\<lparr>code = custom, path = p, message = Some msg\<rparr>])\<rparr>)"

text \<open>
  \<open>mixDataSchema\<close>: the object under its five refinements, the first one innermost. As long
  as every numeric property is a number, all five callbacks are evaluated, each on the same
  data; a \<open>NaN\<close> anywhere aborts the object and none of them is.
\<close>

definition mixDataSchema :: "MixDataFormInput \<Rightarrow> outcome" where
  "mixDataSchema data =
     refinement (refine_boardsTiirDuplicates data) ''Cannot select the same product type twice''
       [Key ''products'']
       (refinement (refine_interlockDuplicates data)
          ''Cannot select the same interlock type twice'' [Key ''products'']
          (refinement (refine_productTypes data) ''Invalid product type for selected mix type''
             [Key ''products'']
             (refinement (refine_colorType data) ''Invalid color type'' [Key ''colorType'']
                (refinement (refine_birta data) ''Birta is required for boards/tiir mix type''
                   [Key ''birta''] (objectSchema data)))))"

text \<open>
  \<open>validate\<close>: the schema applied by the form resolver. The candidate is accepted, and
  returned as it is, when there is no issue; otherwise all issues are returned.
\<close>

definition validate :: "MixDataFormInput \<Rightarrow> issue list + MixDataFormInput" where
  "validate data =
     (case issues (mixDataSchema data) of [] \<Rightarrow> Inr data | i # is \<Rightarrow> Inl (i # is))"

definition violations :: "MixDataFormInput \<Rightarrow> issue list" where
  "violations data = (case validate data of Inl is \<Rightarrow> is | Inr _ \<Rightarrow> [])"

text \<open>\<open>validate\<close> reports a violation on the field path \<open>p\<close>.\<close>

definition reports :: "MixDataFormInput \<Rightarrow> seg list \<Rightarrow> bool" where
  "reports data p = (p \<in> set (map path (violations data)))"

section \<open>Form submission (\<open>MixEntryForm\<close>, in src/components/Data/TotalProductsModal.tsx)\<close>

text \<open>
  \<open>transformedData\<close> in \<open>onSubmit\<close>: \<open>{...data, colorType: data.colorType || 'No Color'}\<close>.
  The empty string is the only falsy string.
\<close>

definition transformedData :: "MixDataFormInput \<Rightarrow> MixDataFormInput" where
  "transformedData data =
     data\<lparr>colorType := (if colorType data = '''' then ''No Color'' else colorType data)\<rparr>"

text \<open>
  The transformed input is passed where a \<open>FormData\<close> is expected: the same properties, with
  \<open>products\<close> present.
\<close>

definition asFormData :: "MixDataFormInput \<Rightarrow> FormData" where
  "asFormData data =
     \<lparr>FormData.mixType = mixType data, cement = cement data, aggregate = aggregate data,
      sand = sand data, water = water data, plastizer = plastizer data, birta = birta data,
      colorType = colorType data, colorQuantity = colorQuantity data,
      products = Some (products data)\<rparr>"

section \<open>Record store (the hooks of \<open>useMixData\<close>, in src/unnamed/part_000)\<close>

text \<open>
  The demonstration records. Their four timestamps are read from the clock when the module is
  loaded, so they are parameters here.
\<close>

definition mockMixData :: "string \<Rightarrow> string \<Rightarrow> string \<Rightarrow> string \<Rightarrow> MixData list" where
  "mockMixData t1 m1 t2 m2 =
     [\<lparr>id_str = ''1'', timestamp = t1, mixType = interlock,
       measurements =
         \<lparr>measurements.cement = Num 350, aggregate = Num 1200, sand = Num 800, water = Num 175,
          plastizer = Num 5, birta = None, colorType = ''Red'', colorQuantity = Num 25,
          products = Some [\<lparr>type = ''Block Interlock'', quantity = Num 100\<rparr>,
                           \<lparr>type = ''Garden'', quantity = Num 50\<rparr>]\<rparr>,
       createdBy = ''demo-user'', lastModified = m1\<rparr>,
      \<lparr>id_str = ''2'', timestamp = t2, mixType = boards_tiir,
       measurements =
         \<lparr>measurements.cement = Num 400, aggregate = Num 1100, sand = Num 750, water = Num 200,
          plastizer = Num 8, birta = Some (Num 50), colorType = ''White'', colorQuantity = Num 30,
          products = Some [\<lparr>type = ''Tiir'', quantity = Num 200\<rparr>,
                           \<lparr>type = ''Boards'', quantity = Num 150\<rparr>]\<rparr>,
       createdBy = ''demo-user'', lastModified = m2\<rparr>]"

text \<open>
  The browser storage under \<open>STORAGE_KEY\<close>: \<open>None\<close> when it holds no item, otherwise the
  stored record list. The storage is taken to be available and to accept a write; the two
  \<open>catch\<close> branches of the source are for a storage that throws.
\<close>

type_synonym storage = "MixData list option"

definition getStoredData :: "MixData list \<Rightarrow> storage \<Rightarrow> MixData list" where
  "getStoredData mock s = (case s of None \<Rightarrow> mock | Some stored \<Rightarrow> stored)"

definition setStoredData :: "MixData list \<Rightarrow> storage \<Rightarrow> storage" where
  "setStoredData data s = Some data"

text \<open>What the clock gives during one call of \<open>useCreateMixData\<close>'s \<open>mutationFn\<close>.\<close>

record clock =
  dateNow :: string
  isoTimestamp :: string
  isoLastModified :: string

text \<open>
  \<open>mutationFn\<close> of \<open>useCreateMixData\<close>: the new record and the storage after the call.
  The two spreads copy \<open>birta\<close> when it is not \<open>undefined\<close> and \<open>products\<close> when it is truthy
  (an array always is).
\<close>

definition createMixData :: "clock \<Rightarrow> MixData list \<Rightarrow> FormData \<Rightarrow> storage \<Rightarrow> MixData \<times> storage" where
  "createMixData clk mock formData s =
     (let newMixData =
        \<lparr>id_str = dateNow clk, timestamp = isoTimestamp clk,
         mixType = FormData.mixType formData,
         measurements =
           \<lparr>measurements.cement = FormData.cement formData,
            aggregate = FormData.aggregate formData,
            sand = FormData.sand formData,
            water = FormData.water formData,
            plastizer = FormData.plastizer formData,
            birta = (if FormData.birta formData \<noteq> None then FormData.birta formData else None),
            colorType = (if FormData.colorType formData = '''' then ''No Color''
                         else FormData.colorType formData),
            colorQuantity = FormData.colorQuantity formData,
            products = (if FormData.products formData \<noteq> None then FormData.products formData
                        else None)\<rparr>,
         createdBy = ''demo-user'', lastModified = isoLastModified clk\<rparr>;
        existingData = getStoredData mock s;
        updatedData = newMixData # existingData
      in (newMixData, setStoredData updatedData s))"

text \<open>
  \<open>onSubmit\<close> of the entry form: nothing is stored when validation fails; otherwise the
  transformed input is created in the store.
\<close>

definition onSubmit ::
  "clock \<Rightarrow> MixData list \<Rightarrow> MixDataFormInput \<Rightarrow> storage \<Rightarrow> (issue list + MixData) \<times> storage" where
  "onSubmit clk mock data s =
     (case validate data of
        Inl is \<Rightarrow> (Inl is, s)
      | Inr accepted \<Rightarrow>
          (let (created, s') = createMixData clk mock (asFormData (transformedData accepted)) s
           in (Inr created, s')))"

text \<open>
  \<open>mutationFn\<close> of \<open>useDeleteMixData\<close>. The promise it returns has no rejecting branch: it
  resolves (with no value) after the filtered list is written back.
\<close>

datatype 'a settled = Resolved 'a | Rejected string

definition deleteMixData :: "string \<Rightarrow> MixData list \<Rightarrow> storage \<Rightarrow> unit settled \<times> storage" where
  "deleteMixData ident mock s =
     (let existingData = getStoredData mock s;
          updatedData = filter (\<lambda>item. id_str item \<noteq> ident) existingData
      in (Resolved (), setStoredData updatedData s))"

section \<open>Aggregation (\<open>TotalProductsModal\<close> in TotalProductsModal.tsx, \<open>FilteredProductsModal\<close> in EditMixModal.tsx)\<close>

text \<open>
  A plain object used as a dictionary: its own properties in insertion order. Reading a
  property that is not there gives \<open>undefined\<close> (\<open>None\<close>); assigning to a property that is
  there keeps its place, and a new property goes to the end. Keys are taken not to be names
  that every object inherits (such as \<open>constructor\<close>); no product type or colour of the
  vocabularies is one.
\<close>

type_synonym 'v obj = "(string \<times> 'v) list"









text \<open>\<open>Object.values(totals).reduce((sum, qty) => sum + qty, 0)\<close>.\<close>

definition sumValues :: "number obj \<Rightarrow> number" where
  "sumValues totals = foldl (\<lambda>sum qty. sum + qty) 0 (map snd totals)"

subsection \<open>By mix type: \<open>calculateTotals\<close>\<close>

record totals =
  interlockTotals :: "number obj"
  boardsTiirTotals :: "number obj"




definition getTotalQuantity :: "number obj \<Rightarrow> number" where
  "getTotalQuantity ts = sumValues ts"

subsection \<open>By colour: \<open>calculateColorTotals\<close>\<close>








subsection \<open>By product type: \<open>calculateProductTotals\<close>\<close>




definition getTotalForProduct :: "number obj \<Rightarrow> number" where
  "getTotalForProduct productData = sumValues productData"

section \<open>Notions of the specification\<close>

text \<open>The field paths of a list of issues.\<close>

definition paths :: "issue list \<Rightarrow> seg list set" where
  "paths is = set (map path is)"

text \<open>The product vocabulary of a mix type.\<close>

definition vocabulary :: "mix_type \<Rightarrow> string list" where
  "vocabulary mt = (case mt of interlock \<Rightarrow> interlockTypes | boards_tiir \<Rightarrow> boardsTiirTypes)"

text \<open>A value that is not a number of the interval \<open>[lo, hi]\<close>; \<open>NaN\<close> is none.\<close>

definition outside :: "rat \<Rightarrow> rat \<Rightarrow> number \<Rightarrow> bool" where
  "outside lo hi v = (case v of NaN \<Rightarrow> True | Num x \<Rightarrow> x < lo \<or> hi < x)"

text \<open>Every numeric property of the candidate is a number: none is \<open>NaN\<close>.\<close>

definition allNumbers :: "MixDataFormInput \<Rightarrow> bool" where
  "allNumbers data =
     (cement data \<noteq> NaN \<and> aggregate data \<noteq> NaN \<and> sand data \<noteq> NaN \<and> water data \<noteq> NaN \<and>
      plastizer data \<noteq> NaN \<and> birta data \<noteq> Some NaN \<and> colorQuantity data \<noteq> NaN \<and>
      list_all (\<lambda>x. quantity x \<noteq> NaN) (products data))"









section \<open>Example inputs\<close>

definition example_interlock :: MixDataFormInput where
  "example_interlock =
     \<lparr>mixType = interlock, cement = Num 350, aggregate = Num 1200, sand = Num 800,
      water = Num 175, plastizer = Num 5, birta = None, colorType = '''',
      colorQuantity = Num 0, products = [\<lparr>type = ''Garden'', quantity = Num 50\<rparr>]\<rparr>"

definition example_boards :: MixDataFormInput where
  "example_boards =
     \<lparr>mixType = boards_tiir, cement = Num 10000, aggregate = Num 1100, sand = Num 750,
      water = Num 200, plastizer = Num 8, birta = None, colorType = ''Blue'',
      colorQuantity = Num 30,
      products = [\<lparr>type = ''Tiir'', quantity = Num 200\<rparr>, \<lparr>type = ''Tiir'', quantity = Num 150\<rparr>]\<rparr>"

text \<open>The same candidate after the cement input has been emptied.\<close>

definition example_emptied :: MixDataFormInput where
  "example_emptied = example_boards\<lparr>cement := NaN\<rparr>"

definition example_clock :: clock where
  "example_clock =
     \<lparr>dateNow = ''1700000000000'', isoTimestamp = ''2023-11-14T22:13:20.000Z'',
      isoLastModified = ''2023-11-14T22:13:20.001Z''\<rparr>"

definition example_mock :: "MixData list" where
  "example_mock =
     mockMixData ''2023-11-14T22:13:20.000Z'' ''2023-11-14T22:13:20.000Z''
       ''2023-11-13T22:13:20.000Z'' ''2023-11-13T22:13:20.000Z''"


text \<open>An interlock candidate with a product of the other vocabulary whose quantity input has been emptied.\<close>

definition example_emptied_quantity :: MixDataFormInput where
  "example_emptied_quantity =
     example_interlock\<lparr>products := [\<lparr>type = ''Tiir'', quantity = NaN\<rparr>]\<rparr>"

section \<open>Facts about issue paths\<close>

lemma violations_eq: "violations data = issues (mixDataSchema data)"
  by (simp add: violations_def validate_def split: list.split)

lemma reports_iff: "reports data p \<longleftrightarrow> p \<in> paths (issues (mixDataSchema data))"
  by (simp add: reports_def violations_eq paths_def)

lemma in_paths_nonempty: "p \<in> paths is \<Longrightarrow> is \<noteq> []"
  by (auto simp: paths_def)

lemma validate_rejects:
  "issues (mixDataSchema data) \<noteq> [] \<Longrightarrow>
     validate data = Inl (violations data) \<and> violations data \<noteq> []"
  by (cases "issues (mixDataSchema data)") (simp_all add: validate_def violations_def)

lemma validate_accepted:
  "validate data = Inr accepted \<Longrightarrow> accepted = data \<and> issues (mixDataSchema data) = []"
  by (cases "issues (mixDataSchema data)") (simp_all add: validate_def)

lemma in_paths_mergeAll:
  "p \<in> paths (issues (mergeAll rs)) \<longleftrightarrow> (\<exists>r\<in>set rs. p \<in> paths (issues r))"
  by (auto simp: mergeAll_def paths_def)

lemma aborted_mergeAll: "aborted (mergeAll rs) \<longleftrightarrow> (\<exists>r\<in>set rs. aborted r)"
  by (simp add: mergeAll_def list_ex_iff)

lemma in_paths_number:
  "p \<in> paths (issues (number_min_max lo m1 hi m2 q v)) \<longleftrightarrow> p = q \<and> outside lo hi v"
  by (cases v) (auto simp: paths_def number_min_max_def outside_def)

lemma aborted_number: "aborted (number_min_max lo m1 hi m2 q v) \<longleftrightarrow> v = NaN"
  by (cases v) (simp_all add: number_min_max_def)

lemma in_paths_optional:
  "p \<in> paths (issues (optional schema v)) \<longleftrightarrow> (\<exists>x. v = Some x \<and> p \<in> paths (issues (schema x)))"
  by (cases v) (simp_all add: optional_def paths_def)

lemma aborted_optional:
  "aborted (optional schema v) \<longleftrightarrow> (\<exists>x. v = Some x \<and> aborted (schema x))"
  by (cases v) (simp_all add: optional_def)

lemma in_paths_string: "p \<in> paths (issues (string_min1 m q s)) \<longleftrightarrow> p = q \<and> s = []"
  by (auto simp: string_min1_def paths_def)

lemma aborted_string: "\<not> aborted (string_min1 m q s)"
  by (simp add: string_min1_def)

lemma in_paths_productSchema:
  "p \<in> paths (issues (productSchema i x)) \<longleftrightarrow>
     (p = [Key ''products'', Idx i, Key ''type''] \<and> type x = []) \<or>
     (p = [Key ''products'', Idx i, Key ''quantity''] \<and> outside 0 9999 (quantity x))"
  by (simp add: productSchema_def in_paths_mergeAll in_paths_string in_paths_number)

lemma aborted_productSchema: "aborted (productSchema i x) \<longleftrightarrow> quantity x = NaN"
  by (simp add: productSchema_def aborted_mergeAll aborted_string aborted_number)

lemma ex_enumerate:
  "(\<exists>r\<in>set (map (\<lambda>(i, x). f i x) (enumerate 0 ps)). Q r) \<longleftrightarrow> (\<exists>i<length ps. Q (f i (ps ! i)))"
proof
  assume "\<exists>r\<in>set (map (\<lambda>(i, x). f i x) (enumerate 0 ps)). Q r"
  then obtain i x where e: "(i, x) \<in> set (enumerate 0 ps)" and q: "Q (f i x)"
    by auto
  from e have "i < length ps" and "ps ! i = x"
    by (simp_all add: in_set_enumerate_eq)
  with q show "\<exists>i<length ps. Q (f i (ps ! i))"
    by auto
next
  assume "\<exists>i<length ps. Q (f i (ps ! i))"
  then obtain i where l: "i < length ps" and q: "Q (f i (ps ! i))"
    by auto
  from l have "(i, ps ! i) \<in> set (enumerate 0 ps)"
    by (simp add: in_set_enumerate_eq)
  with q show "\<exists>r\<in>set (map (\<lambda>(i, x). f i x) (enumerate 0 ps)). Q r"
    by force
qed

lemma in_paths_productsSchema:
  "p \<in> paths (issues (productsSchema ps)) \<longleftrightarrow>
     (p = [Key ''products''] \<and> ps = []) \<or>
     (\<exists>i<length ps. p \<in> paths (issues (productSchema i (ps ! i))))"
proof -
  have a: "p \<in> paths (issues \<lparr>issues =
           (if length ps < 1
            then [\<lparr>code = too_small, path = [Key ''products''],
                   message = Some ''At least one product is required''\<rparr>]
            else []),
         aborted = False\<rparr>) \<longleftrightarrow> p = [Key ''products''] \<and> ps = []"
    by (auto simp: paths_def)
  have b: "(\<exists>r\<in>set (map (\<lambda>(i, x). productSchema i x) (enumerate 0 ps)). p \<in> paths (issues r)) \<longleftrightarrow>
        (\<exists>i<length ps. p \<in> paths (issues (productSchema i (ps ! i))))"
    by (rule ex_enumerate)
  show ?thesis
    unfolding productsSchema_def in_paths_mergeAll using a b by simp
qed

lemma aborted_productsSchema:
  "aborted (productsSchema ps) \<longleftrightarrow> (\<exists>x\<in>set ps. quantity x = NaN)"
proof -
  have "(\<exists>r\<in>set (map (\<lambda>(i, x). productSchema i x) (enumerate 0 ps)). aborted r) \<longleftrightarrow>
        (\<exists>i<length ps. aborted (productSchema i (ps ! i)))"
    by (rule ex_enumerate)
  also have "\<dots> \<longleftrightarrow> (\<exists>i<length ps. quantity (ps ! i) = NaN)"
    by (simp add: aborted_productSchema)
  also have "\<dots> \<longleftrightarrow> (\<exists>x\<in>set ps. quantity x = NaN)"
    by (metis in_set_conv_nth)
  finally show ?thesis
    unfolding productsSchema_def aborted_mergeAll by simp
qed

lemma in_paths_objectSchema:
  "p \<in> paths (issues (objectSchema data)) \<longleftrightarrow>
     (p = [Key ''cement''] \<and> outside 0 9999.99 (cement data)) \<or>
     (p = [Key ''aggregate''] \<and> outside 0 9999.99 (aggregate data)) \<or>
     (p = [Key ''sand''] \<and> outside 0 9999.99 (sand data)) \<or>
     (p = [Key ''water''] \<and> outside 0 9999.99 (water data)) \<or>
     (p = [Key ''plastizer''] \<and> outside 0 9999.99 (plastizer data)) \<or>
     (\<exists>b. birta data = Some b \<and> p = [Key ''birta''] \<and> outside 0 9999 b) \<or>
     (p = [Key ''colorQuantity''] \<and> outside 0 9999.99 (colorQuantity data)) \<or>
     p \<in> paths (issues (productsSchema (products data)))"
  by (simp add: objectSchema_def in_paths_mergeAll in_paths_number in_paths_optional)

lemma aborted_objectSchema: "aborted (objectSchema data) \<longleftrightarrow> \<not> allNumbers data"
  by (auto simp: objectSchema_def aborted_mergeAll aborted_number aborted_optional
      aborted_productsSchema allNumbers_def list_all_iff)

lemma in_paths_refinement:
  "p \<in> paths (issues (refinement ok msg q inner)) \<longleftrightarrow>
     p \<in> paths (issues inner) \<or> (\<not> aborted inner \<and> \<not> ok \<and> p = q)"
  by (auto simp: refinement_def paths_def)

lemma aborted_refinement: "aborted (refinement ok msg q inner) = aborted inner"
  by (simp add: refinement_def)

lemma in_paths_five_refinements:
  "p \<in> paths (issues (refinement o5 m5 q5 (refinement o4 m4 q4 (refinement o3 m3 q3
       (refinement o2 m2 q2 (refinement o1 m1 q1 r)))))) \<longleftrightarrow>
     p \<in> paths (issues r) \<or>
     (\<not> aborted r \<and>
      ((\<not> o1 \<and> p = q1) \<or> (\<not> o2 \<and> p = q2) \<or> (\<not> o3 \<and> p = q3) \<or> (\<not> o4 \<and> p = q4) \<or>
       (\<not> o5 \<and> p = q5)))"
  by (simp only: in_paths_refinement aborted_refinement) blast

lemma in_paths_mixDataSchema:
  "p \<in> paths (issues (mixDataSchema data)) \<longleftrightarrow>
     p \<in> paths (issues (objectSchema data)) \<or>
     (allNumbers data \<and>
      ((\<not> refine_birta data \<and> p = [Key ''birta'']) \<or>
       (\<not> refine_colorType data \<and> p = [Key ''colorType'']) \<or>
       (\<not> refine_productTypes data \<and> p = [Key ''products'']) \<or>
       (\<not> refine_interlockDuplicates data \<and> p = [Key ''products'']) \<or>
       (\<not> refine_boardsTiirDuplicates data \<and> p = [Key ''products''])))"
  unfolding mixDataSchema_def in_paths_five_refinements aborted_objectSchema
  by simp

lemma object_issue_kept:
  "p \<in> paths (issues (objectSchema data)) \<Longrightarrow> p \<in> paths (issues (mixDataSchema data))"
  by (simp add: in_paths_mixDataSchema)

lemma nan_rejected:
  assumes "\<not> allNumbers data"
  shows "issues (mixDataSchema data) \<noteq> []"
proof -
  consider (c) "cement data = NaN" | (a) "aggregate data = NaN" | (s) "sand data = NaN"
    | (w) "water data = NaN" | (p) "plastizer data = NaN" | (b) "birta data = Some NaN"
    | (q) "colorQuantity data = NaN"
    | (x) i where "i < length (products data)" "quantity (products data ! i) = NaN"
    using assms by (auto simp: allNumbers_def list_all_iff in_set_conv_nth)
  then have "\<exists>p. p \<in> paths (issues (objectSchema data))"
  proof cases
    case c
    then have "[Key ''cement''] \<in> paths (issues (objectSchema data))"
      by (simp add: in_paths_objectSchema outside_def)
    then show ?thesis ..
  next
    case a
    then have "[Key ''aggregate''] \<in> paths (issues (objectSchema data))"
      by (simp add: in_paths_objectSchema outside_def)
    then show ?thesis ..
  next
    case s
    then have "[Key ''sand''] \<in> paths (issues (objectSchema data))"
      by (simp add: in_paths_objectSchema outside_def)
    then show ?thesis ..
  next
    case w
    then have "[Key ''water''] \<in> paths (issues (objectSchema data))"
      by (simp add: in_paths_objectSchema outside_def)
    then show ?thesis ..
  next
    case p
    then have "[Key ''plastizer''] \<in> paths (issues (objectSchema data))"
      by (simp add: in_paths_objectSchema outside_def)
    then show ?thesis ..
  next
    case b
    then have "[Key ''birta''] \<in> paths (issues (objectSchema data))"
      by (simp add: in_paths_objectSchema outside_def)
    then show ?thesis ..
  next
    case q
    then have "[Key ''colorQuantity''] \<in> paths (issues (objectSchema data))"
      by (simp add: in_paths_objectSchema outside_def)
    then show ?thesis ..
  next
    case x
    then have "[Key ''products'', Idx i, Key ''quantity'']
        \<in> paths (issues (productSchema i (products data ! i)))"
      by (simp add: in_paths_productSchema outside_def)
    with x(1) have "[Key ''products'', Idx i, Key ''quantity'']
        \<in> paths (issues (productsSchema (products data)))"
      unfolding in_paths_productsSchema by blast
    then have "[Key ''products'', Idx i, Key ''quantity''] \<in> paths (issues (objectSchema data))"
      by (simp add: in_paths_objectSchema)
    then show ?thesis ..
  qed
  then obtain p where "p \<in> paths (issues (mixDataSchema data))"
    using object_issue_kept by blast
  then show ?thesis by (rule in_paths_nonempty)
qed

text \<open>
  A cross-field rule that is reported whenever every numeric property is a number: the
  candidate is rejected in any case, by that rule or by the \<open>NaN\<close>.
\<close>

lemma cross_field_rule:
  assumes "allNumbers data \<Longrightarrow> q \<in> paths (issues (mixDataSchema data))"
  shows "validate data = Inl (violations data) \<and> violations data \<noteq> [] \<and>
    (allNumbers data \<longrightarrow> reports data q)"
proof (cases "allNumbers data")
  case True
  with assms have q: "q \<in> paths (issues (mixDataSchema data))" by simp
  then have "issues (mixDataSchema data) \<noteq> []" by (rule in_paths_nonempty)
  with q show ?thesis by (simp add: validate_rejects reports_iff)
next
  case False
  then have "issues (mixDataSchema data) \<noteq> []" by (rule nan_rejected)
  with False show ?thesis by (simp add: validate_rejects)
qed

lemma refine_productTypes_iff:
  "refine_productTypes data \<longleftrightarrow>
     list_all (\<lambda>x. type x \<in> set (vocabulary (mixType data))) (products data)"
  by (cases "mixType data"; cases "products data")
     (simp_all add: refine_productTypes_def vocabulary_def)

lemma uniqueTypes_iff:
  "uniqueTypes ps \<longleftrightarrow> distinct (filter (\<lambda>t. t \<noteq> '''') (map type ps))"
  unfolding uniqueTypes_def Let_def
  by (metis length_remdups_eq remdups_id_iff_distinct)

lemma distinct_filter_nth:
  "distinct (filter P xs) \<Longrightarrow> i < length xs \<Longrightarrow> j < length xs \<Longrightarrow> i \<noteq> j \<Longrightarrow> P (xs ! i)
     \<Longrightarrow> xs ! i \<noteq> xs ! j"
proof (induction xs arbitrary: i j)
  case Nil
  then show ?case by simp
next
  case (Cons a xs)
  show ?case
  proof (cases i)
    case 0
    then obtain j' where j: "j = Suc j'" using Cons.prems(4) by (cases j) auto
    with Cons.prems 0 have "a \<notin> set (filter P xs)" and "j' < length xs" by auto
    with Cons.prems(5) 0 j show ?thesis by (auto simp: nth_mem)
  next
    case (Suc i')
    note i = this
    show ?thesis
    proof (cases j)
      case 0
      with Cons.prems i have "P (xs ! i')" and "i' < length xs" by auto
      moreover from Cons.prems have "P a \<Longrightarrow> a \<notin> set (filter P xs)" by auto
      ultimately show ?thesis using i 0 by (auto simp: nth_mem)
    next
      case (Suc j')
      from Cons.prems have "distinct (filter P xs)" by (auto split: if_splits)
      with Cons.IH[of i' j'] Cons.prems i Suc show ?thesis by auto
    qed
  qed
qed

lemma duplicate_types_path:
  assumes "allNumbers data" and "\<not> distinct (map type (products data))"
  shows "[Key ''products''] \<in> paths (issues (mixDataSchema data))"
proof -
  let ?ps = "products data"
  from assms(2) obtain i j where ij: "i < length ?ps" "j < length ?ps" "i \<noteq> j"
      "type (?ps ! i) = type (?ps ! j)"
    by (auto simp: distinct_conv_nth)
  then have ne: "?ps \<noteq> []" by auto
  show ?thesis
  proof (cases "type (?ps ! i) = ''''")
    case True
    have "?ps ! i \<in> set ?ps" using ij(1) by simp
    moreover have "type (?ps ! i) \<notin> set (vocabulary (mixType data))"
      using True by (cases "mixType data") (simp_all add: vocabulary_def interlockTypes_def boardsTiirTypes_def)
    ultimately have "\<not> refine_productTypes data"
      unfolding refine_productTypes_iff list_all_iff by blast
    then show ?thesis using assms(1) by (simp add: in_paths_mixDataSchema)
  next
    case False
    have "\<not> distinct (filter (\<lambda>t. t \<noteq> '''') (map type ?ps))"
      using distinct_filter_nth[of "\<lambda>t. t \<noteq> ''''" "map type ?ps" i j] ij False by auto
    then have "\<not> uniqueTypes ?ps" by (simp add: uniqueTypes_iff)
    with ne have "\<not> refine_interlockDuplicates data \<or> \<not> refine_boardsTiirDuplicates data"
      by (cases "mixType data")
         (simp_all add: refine_interlockDuplicates_def refine_boardsTiirDuplicates_def)
    then show ?thesis using assms(1) by (auto simp: in_paths_mixDataSchema)
  qed
qed

lemma vocabulary_path:
  assumes "allNumbers data"
    and "\<not> list_all (\<lambda>x. type x \<in> set (vocabulary (mixType data))) (products data)"
  shows "[Key ''products''] \<in> paths (issues (mixDataSchema data))"
  using assms by (simp add: in_paths_mixDataSchema refine_productTypes_iff)



lemma birta_object_issue:
  "[Key ''birta''] \<in> paths (issues (objectSchema data)) \<longleftrightarrow>
     (\<exists>b. birta data = Some b \<and> outside 0 9999 b)"
  by (simp add: in_paths_objectSchema in_paths_productsSchema in_paths_productSchema)


text \<open>The candidate whose cement input was emptied gets the issue of the \<open>NaN\<close> and no other.\<close>

lemma violations_example_emptied:
  "violations example_emptied = [\<lparr>code = invalid_type, path = [Key ''cement''], message = None\<rparr>]"
  by (simp add: violations_eq mixDataSchema_def refinement_def objectSchema_def mergeAll_def
      number_min_max_def optional_def productsSchema_def productSchema_def string_min1_def
      example_emptied_def example_boards_def)

lemma violations_example_emptied_quantity:
  "violations example_emptied_quantity =
     [\<lparr>code = invalid_type, path = [Key ''products'', Idx 0, Key ''quantity''], message = None\<rparr>]"
  by (simp add: violations_eq mixDataSchema_def refinement_def objectSchema_def mergeAll_def
      number_min_max_def optional_def productsSchema_def productSchema_def string_min1_def
      example_emptied_quantity_def example_interlock_def)

lemma example_boards_allNumbers: "allNumbers example_boards"
  by (simp add: allNumbers_def example_boards_def)

lemma example_interlock_allNumbers: "allNumbers example_interlock"
  by (simp add: allNumbers_def example_interlock_def)

section \<open>The validator\<close>




text \<open>
  C2, as the code has it. Under interlock an absent \<open>birta\<close> is never a violation, and neither
  is one in \<open>[0, 9999]\<close>; a \<open>birta\<close> that is present with any other value, a number outside
  \<open>[0, 9999]\<close> or \<open>NaN\<close>, is reported on the path \<open>birta\<close>, since the checks of the object
  schema do not look at the mix type.
\<close>

theorem interlock_birta_reported_iff_out_of_range:
  assumes "mixType data = interlock"
  shows "reports data [Key ''birta''] \<longleftrightarrow>
    (birta data = Some NaN \<or> (\<exists>b. birta data = Some (Num b) \<and> (b < 0 \<or> 9999 < b)))"
proof -
  have "reports data [Key ''birta''] \<longleftrightarrow> (\<exists>v. birta data = Some v \<and> outside 0 9999 v)"
    using assms
    by (simp add: reports_iff in_paths_mixDataSchema birta_object_issue refine_birta_def)
  also have "\<dots> \<longleftrightarrow>
      (birta data = Some NaN \<or> (\<exists>b. birta data = Some (Num b) \<and> (b < 0 \<or> 9999 < b)))"
  proof (cases "birta data")
    case None
    then show ?thesis by simp
  next
    case (Some v)
    then show ?thesis by (cases v) (simp_all add: outside_def)
  qed
  finally show ?thesis .
qed

theorem interlock_birta_reported_iff_out_of_range_witness:
  "\<not> reports example_interlock [Key ''birta'']"
  using interlock_birta_reported_iff_out_of_range[of example_interlock]
  by (simp add: example_interlock_def)

text \<open>
  The claim as stated fails: an interlock candidate whose \<open>birta\<close> is 10000 gets a violation
  on \<open>birta\<close>.
\<close>

theorem interlock_birta_out_of_range_reported:
  "mixType (example_interlock\<lparr>birta := Some (Num 10000)\<rparr>) = interlock \<and>
   reports (example_interlock\<lparr>birta := Some (Num 10000)\<rparr>) [Key ''birta'']"
  by (simp add: example_interlock_def reports_iff in_paths_mixDataSchema birta_object_issue
      outside_def)

text \<open>
  C4, as the code has it. A boards/tiir candidate without \<open>birta\<close> is rejected; when none of
  its numeric properties is \<open>NaN\<close>, a violation is attached to the path \<open>birta\<close>.
\<close>

theorem boards_tiir_without_birta_rejected:
  assumes "mixType data = boards_tiir" and "birta data = None"
  shows "validate data = Inl (violations data) \<and> violations data \<noteq> [] \<and>
    (allNumbers data \<longrightarrow> reports data [Key ''birta''])"
proof (rule cross_field_rule)
  assume "allNumbers data"
  with assms show "[Key ''birta''] \<in> paths (issues (mixDataSchema data))"
    by (simp add: in_paths_mixDataSchema refine_birta_def)
qed

theorem boards_tiir_without_birta_rejected_witness:
  "validate example_boards = Inl (violations example_boards) \<and>
   violations example_boards \<noteq> [] \<and> reports example_boards [Key ''birta'']"
proof -
  have "mixType example_boards = boards_tiir" and "birta example_boards = None"
    by (simp_all add: example_boards_def)
  from boards_tiir_without_birta_rejected[OF this] example_boards_allNumbers
  show ?thesis by blast
qed

text \<open>
  The claim as stated fails: the boards/tiir candidate without \<open>birta\<close> whose cement input
  was emptied gets no violation on the path \<open>birta\<close>.
\<close>

theorem emptied_input_hides_missing_birta:
  "mixType example_emptied = boards_tiir \<and> birta example_emptied = None \<and>
   \<not> reports example_emptied [Key ''birta'']"
  by (simp add: reports_def violations_example_emptied)
     (simp add: example_emptied_def example_boards_def)




text \<open>
  C6, as the code has it. A candidate with two product entries of the same type, at any two
  places of the list and under either mix type, is rejected; when none of its numeric
  properties is \<open>NaN\<close>, a violation is on the path \<open>products\<close>.
\<close>

theorem duplicate_product_type_reported:
  assumes "i < length (products data)" and "j < length (products data)" and "i \<noteq> j"
    and "type (products data ! i) = type (products data ! j)"
  shows "validate data = Inl (violations data) \<and> violations data \<noteq> [] \<and>
    (allNumbers data \<longrightarrow> reports data [Key ''products''])"
proof (rule cross_field_rule)
  assume n: "allNumbers data"
  have "\<not> distinct (map type (products data))"
  proof
    assume "distinct (map type (products data))"
    from nth_eq_iff_index_eq[OF this, of i j] assms show False by simp
  qed
  with n show "[Key ''products''] \<in> paths (issues (mixDataSchema data))"
    by (rule duplicate_types_path)
qed

theorem duplicate_product_type_reported_witness:
  "reports example_boards [Key ''products''] \<and>
   validate example_boards = Inl (violations example_boards) \<and>
   reports (example_interlock\<lparr>products :=
      [\<lparr>type = ''Garden'', quantity = Num 1\<rparr>, \<lparr>type = ''Block Interlock'', quantity = Num 2\<rparr>,
       \<lparr>type = ''Garden'', quantity = Num 3\<rparr>]\<rparr>) [Key ''products'']"
proof -
  have "(0::nat) < length (products example_boards) \<and> (1::nat) < length (products example_boards)
      \<and> (0::nat) \<noteq> 1 \<and> type (products example_boards ! 0) = type (products example_boards ! 1)"
    by (simp add: example_boards_def)
  then have a: "reports example_boards [Key ''products''] \<and>
      validate example_boards = Inl (violations example_boards)"
    using duplicate_product_type_reported[of 0 example_boards 1] example_boards_allNumbers
    by blast
  let ?d = "example_interlock\<lparr>products :=
      [\<lparr>type = ''Garden'', quantity = Num 1\<rparr>, \<lparr>type = ''Block Interlock'', quantity = Num 2\<rparr>,
       \<lparr>type = ''Garden'', quantity = Num 3\<rparr>]\<rparr>"
  have "(2::nat) < length (products ?d) \<and> (0::nat) < length (products ?d) \<and> (2::nat) \<noteq> 0
      \<and> type (products ?d ! 2) = type (products ?d ! 0)"
    by simp
  moreover have "allNumbers ?d"
    by (simp add: allNumbers_def example_interlock_def)
  ultimately have "reports ?d [Key ''products'']"
    using duplicate_product_type_reported[of 2 ?d 0] by blast
  with a show ?thesis by simp
qed

text \<open>
  The claim as stated fails: the candidate whose cement input was emptied has the type Tiir
  at both places of its product list and gets no violation on the path \<open>products\<close>.
\<close>

theorem emptied_input_hides_duplicate_type:
  "type (products example_emptied ! 0) = type (products example_emptied ! 1) \<and>
   length (products example_emptied) = 2 \<and>
   \<not> reports example_emptied [Key ''products'']"
  by (simp add: reports_def violations_example_emptied)
     (simp add: example_emptied_def example_boards_def)

text \<open>
  C7, as the code has it. A candidate with a product whose type is not of the vocabulary of
  its mix type is rejected; when none of its numeric properties is \<open>NaN\<close>, a violation is on
  the path \<open>products\<close>. The vocabularies are the six interlock types (with Garden) and the two
  boards/tiir types.
\<close>

theorem product_type_outside_vocabulary_reported:
  assumes "x \<in> set (products data)" and "type x \<notin> set (vocabulary (mixType data))"
  shows "validate data = Inl (violations data) \<and> violations data \<noteq> [] \<and>
    (allNumbers data \<longrightarrow> reports data [Key ''products'']) \<and>
    vocabulary interlock = [''Block Interlock'', ''Buuor Interlock'', ''Daimond Interlock'',
      ''Tiiba Talyaani Interlock'', ''York Shir Interlock'', ''Garden''] \<and>
    vocabulary boards_tiir = [''Tiir'', ''Boards'']"
proof -
  have "validate data = Inl (violations data) \<and> violations data \<noteq> [] \<and>
      (allNumbers data \<longrightarrow> reports data [Key ''products''])"
  proof (rule cross_field_rule)
    assume n: "allNumbers data"
    have "\<not> list_all (\<lambda>x. type x \<in> set (vocabulary (mixType data))) (products data)"
      using assms by (auto simp: list_all_iff)
    with n show "[Key ''products''] \<in> paths (issues (mixDataSchema data))"
      by (rule vocabulary_path)
  qed
  then show ?thesis
    by (simp add: vocabulary_def interlockTypes_def boardsTiirTypes_def)
qed

theorem product_type_outside_vocabulary_reported_witness:
  "reports (example_interlock\<lparr>products := [\<lparr>type = ''Tiir'', quantity = Num 1\<rparr>]\<rparr>)
     [Key ''products'']"
proof -
  let ?d = "example_interlock\<lparr>products := [\<lparr>type = ''Tiir'', quantity = Num 1\<rparr>]\<rparr>"
  have "\<lparr>type = ''Tiir'', quantity = Num 1\<rparr> \<in> set (products ?d)"
    by simp
  moreover have "type \<lparr>type = ''Tiir'', quantity = Num 1\<rparr> \<notin> set (vocabulary (mixType ?d))"
    by (simp add: example_interlock_def vocabulary_def interlockTypes_def)
  moreover have "allNumbers ?d"
    by (simp add: allNumbers_def example_interlock_def)
  ultimately show ?thesis
    using product_type_outside_vocabulary_reported[of "\<lparr>type = ''Tiir'', quantity = Num 1\<rparr>" ?d]
    by blast
qed

text \<open>
  The claim as stated fails: an interlock candidate with the product Tiir whose quantity
  input was emptied gets no violation on the path \<open>products\<close>.
\<close>

theorem emptied_quantity_hides_foreign_type:
  "mixType example_emptied_quantity = interlock \<and>
   map type (products example_emptied_quantity) = [''Tiir''] \<and>
   ''Tiir'' \<notin> set (vocabulary interlock) \<and>
   \<not> reports example_emptied_quantity [Key ''products'']"
  by (simp add: reports_def violations_example_emptied_quantity)
     (simp add: example_emptied_quantity_def example_interlock_def vocabulary_def
        interlockTypes_def)

section \<open>The record store\<close>

lemma example_interlock_with_birta_accepted:
  "validate (example_interlock\<lparr>birta := Some (Num 50)\<rparr>)
     = Inr (example_interlock\<lparr>birta := Some (Num 50)\<rparr>)"
  by (simp add: validate_def mixDataSchema_def refinement_def objectSchema_def mergeAll_def
      number_min_max_def optional_def productsSchema_def productSchema_def string_min1_def
      refine_birta_def refine_colorType_def refine_productTypes_def
      refine_interlockDuplicates_def refine_boardsTiirDuplicates_def uniqueTypes_def
      interlockTypes_def example_interlock_def)

text \<open>
  C3. The code stores an interlock record with a \<open>birta\<close>: the interlock input with
  \<open>birta\<close> 50 (left in the form after a switch from boards/tiir) is accepted, and the
  submission creates and stores an interlock record that carries \<open>birta\<close> 50.
\<close>

theorem accepted_interlock_record_carries_birta:
  "validate (example_interlock\<lparr>birta := Some (Num 50)\<rparr>)
     = Inr (example_interlock\<lparr>birta := Some (Num 50)\<rparr>) \<and>
   (case onSubmit example_clock example_mock (example_interlock\<lparr>birta := Some (Num 50)\<rparr>) None of
      (Inr created, Some (stored # _)) \<Rightarrow>
         stored = created \<and> MixData.mixType created = interlock \<and>
         measurements.birta (measurements created) = Some (Num 50)
    | _ \<Rightarrow> False)"
  using example_interlock_with_birta_accepted
  by (simp add: onSubmit_def createMixData_def Let_def asFormData_def transformedData_def
      setStoredData_def example_interlock_def)

text \<open>
  C10. Deleting resolves, whatever the id. Afterwards the store holds the records it held
  before whose id is not the given one, in the same order and unchanged: exactly the records
  with that id are gone. When no stored record has the id, the stored list is what it was.
\<close>

theorem delete_removes_exactly_the_id:
  "fst (deleteMixData ident mock s) = Resolved () \<and>
   getStoredData mock (snd (deleteMixData ident mock s))
     = filter (\<lambda>item. id_str item \<noteq> ident) (getStoredData mock s) \<and>
   set (getStoredData mock (snd (deleteMixData ident mock s)))
     = {item \<in> set (getStoredData mock s). id_str item \<noteq> ident} \<and>
   (ident \<notin> id_str ` set stored \<longrightarrow>
      snd (deleteMixData ident mock (Some stored)) = Some stored)"
proof -
  have "ident \<notin> id_str ` set stored \<Longrightarrow> filter (\<lambda>item. id_str item \<noteq> ident) stored = stored"
    by (induction stored) auto
  then show ?thesis
    by (auto simp: deleteMixData_def Let_def getStoredData_def setStoredData_def)
qed

theorem delete_removes_exactly_the_id_witness:
  "snd (deleteMixData ''7'' [] (Some example_mock)) = Some example_mock \<and>
   map id_str (getStoredData [] (snd (deleteMixData ''1'' [] (Some example_mock)))) = [''2'']"
proof -
  have "''7'' \<notin> id_str ` set example_mock"
    by (simp add: example_mock_def mockMixData_def)
  then show ?thesis
    using delete_removes_exactly_the_id[of "''7''" "[]" "Some example_mock" example_mock]
      delete_removes_exactly_the_id[of "''1''" "[]" "Some example_mock" "[]"]
    by (simp add: getStoredData_def example_mock_def mockMixData_def)
qed

section \<open>Facts about dictionaries and loops\<close>






















section \<open>The loops of the aggregation\<close>

















section \<open>The aggregation\<close>



end
